theory Spec2Isabelle
  imports Main "HOL-Library.Sublist" "HOL-Library.AList"
begin

text \<open>
  A model of \<open>conda.py\<close>, the Ansible module that installs, upgrades and removes packages
  with \<open>conda\<close>. Every function of the module keeps its name, without the leading underscore
  where it has one.
\<close>

section \<open>Python strings\<close>

text \<open>
  A Python \<open>str\<close> is modelled as a \<open>string\<close>, one \<open>char\<close> for each code point below 256.
  \<open>isspace\<close> is \<open>str.isspace\<close> on one character: the white space of Python 3 in that range.
\<close>

definition isspace :: \<open>char \<Rightarrow> bool\<close> where
  \<open>isspace c \<longleftrightarrow> c \<in> set [CHR 0x09, CHR 0x0A, CHR 0x0B, CHR 0x0C, CHR 0x0D,
     CHR 0x1C, CHR 0x1D, CHR 0x1E, CHR 0x1F, CHR 0x20, CHR 0x85, CHR 0xA0]\<close>

text \<open>\<open>s.strip()\<close>: white space is removed at both ends.\<close>

definition strip :: \<open>string \<Rightarrow> string\<close> where
  \<open>strip s = rev (dropWhile isspace (rev (dropWhile isspace s)))\<close>

text \<open>
  \<open>s.split()\<close> with no separator: the maximal runs of characters that are not white space,
  in order; no empty string is ever produced. \<open>split_words w cs\<close> scans \<open>cs\<close> with the word
  \<open>w\<close> read so far.
\<close>

fun split_words :: \<open>string \<Rightarrow> string \<Rightarrow> string list\<close> where
  \<open>split_words w [] = (if w = [] then [] else [w])\<close>
| \<open>split_words w (c # cs) =
     (if isspace c then (if w = [] then split_words [] cs else w # split_words [] cs)
      else split_words (w @ [c]) cs)\<close>

definition split_whitespace :: \<open>string \<Rightarrow> string list\<close> where
  \<open>split_whitespace s = split_words [] s\<close>

text \<open>
  \<open>s.split(sep)\<close> for a separator of one character: the pieces between the separators,
  empty pieces included, so the result is never the empty list.
\<close>

fun split_sep :: \<open>char \<Rightarrow> string \<Rightarrow> string list\<close> where
  \<open>split_sep sep [] = [[]]\<close>
| \<open>split_sep sep (c # cs) =
     (if c = sep then [] # split_sep sep cs
      else (case split_sep sep cs of [] \<Rightarrow> [[c]] | l # ls \<Rightarrow> (c # l) # ls))\<close>

section \<open>Command builder\<close>

text \<open>
  \<open>module.params['channels']\<close> and \<open>module.params['extra_args']\<close> are a \<open>str\<close> or
  \<open>None\<close>; \<open>None\<close> and the empty string are the two falsy values. \<open>dashc\<close> is the loop of
  \<open>add_channels_to_command\<close> that puts \<open>--channel\<close> before each channel; the slices
  \<open>command[:2]\<close> and \<open>command[2:]\<close> are \<open>take 2\<close> and \<open>drop 2\<close>.
\<close>

fun dashc :: \<open>string list \<Rightarrow> string list\<close> where
  \<open>dashc [] = []\<close>
| \<open>dashc (channel # channels) = ''--channel'' # channel # dashc channels\<close>

definition add_channels_to_command :: \<open>string list \<Rightarrow> string option \<Rightarrow> string list\<close> where
  \<open>add_channels_to_command command channels =
     (case channels of
        None \<Rightarrow> command
      | Some chs \<Rightarrow>
          if chs = [] then command
          else take 2 command @ dashc (split_whitespace (strip chs)) @ drop 2 command)\<close>

definition add_extras_to_command :: \<open>string list \<Rightarrow> string option \<Rightarrow> string list\<close> where
  \<open>add_extras_to_command command extras =
     (case extras of
        None \<Rightarrow> command
      | Some exs \<Rightarrow>
          if exs = [] then command
          else take 2 command @ split_whitespace (strip exs) @ drop 2 command)\<close>

text \<open>
  The first two statements of \<open>_run_conda_command\<close>: the command line that is handed to
  \<open>module.run_command\<close>.
\<close>

definition injected_command :: \<open>string list \<Rightarrow> string option \<Rightarrow> string option \<Rightarrow> string list\<close> where
  \<open>injected_command command channels extra_args =
     add_extras_to_command (add_channels_to_command command channels) extra_args\<close>

text \<open>A value that injects nothing: \<open>None\<close>, the empty string, or white space only.\<close>

definition blank :: \<open>string option \<Rightarrow> bool\<close> where
  \<open>blank v \<longleftrightarrow> (case v of None \<Rightarrow> True | Some s \<Rightarrow> list_all isspace s)\<close>

section \<open>Decoded JSON and Python's operations on it\<close>

text \<open>
  What \<open>json.loads\<close> returns: \<open>None\<close>, a \<open>bool\<close>, an \<open>int\<close>, a \<open>float\<close> (given by
  its 64-bit pattern; the module never computes with numbers), a \<open>str\<close>, a \<open>list\<close> or a
  \<open>dict\<close>. A \<open>dict\<close> is the list of its items in insertion order. \<open>JNull\<close> is Python's
  \<open>None\<close>, also where \<open>None\<close> is an ordinary value of the module (no message, no result).
\<close>

datatype json =
    JNull
  | JBool bool
  | JInt int
  | JFloat nat
  | JStr string
  | JArr \<open>json list\<close>
  | JObj \<open>(string \<times> json) list\<close>

text \<open>
  The exceptions that the module can raise. \<open>CondaCommandError\<close> has the fields
  \<open>command\<close>, \<open>error_message\<close>, \<open>output\<close>, \<open>stdout\<close> and \<open>stderr\<close> that its
  \<open>__init__\<close> stores. The other two classes define \<open>__int__\<close> and no \<open>__init__\<close>, so an
  instance holds the arguments of its constructor, in order, and nothing else.
  \<open>TypeError\<close> and \<open>KeyError\<close> are Python's own.
\<close>

datatype exn =
    TypeError
  | KeyError string
  | CondaCommandError \<open>string list\<close> json json string string
  | CondaPackageNotFoundError string \<open>string option\<close>
  | CondaUnexpectedOutputError json string

text \<open>
  \<open>key in value\<close> for a \<open>str\<close> key: a key of a \<open>dict\<close>, an element of a \<open>list\<close>, a
  substring of a \<open>str\<close>; any other value is not iterable and Python raises \<open>TypeError\<close>.
\<close>

fun contains :: \<open>json \<Rightarrow> string \<Rightarrow> exn + bool\<close> where
  \<open>contains (JObj items) key = Inr (key \<in> set (map fst items))\<close>
| \<open>contains (JArr elements) key = Inr (JStr key \<in> set elements)\<close>
| \<open>contains (JStr s) key = Inr (sublist key s)\<close>
| \<open>contains _ key = Inl TypeError\<close>

text \<open>\<open>value[key]\<close> for a \<open>str\<close> key: only a \<open>dict\<close> can be indexed by a string.\<close>

fun getitem :: \<open>json \<Rightarrow> string \<Rightarrow> exn + json\<close> where
  \<open>getitem (JObj items) key =
     (case map_of items key of None \<Rightarrow> Inl (KeyError key) | Some v \<Rightarrow> Inr v)\<close>
| \<open>getitem _ key = Inl TypeError\<close>

text \<open>\<open>len(value)\<close>: defined on \<open>dict\<close>, \<open>list\<close> and \<open>str\<close>, a \<open>TypeError\<close> elsewhere.\<close>

fun len :: \<open>json \<Rightarrow> exn + nat\<close> where
  \<open>len (JObj items) = Inr (length items)\<close>
| \<open>len (JArr elements) = Inr (length elements)\<close>
| \<open>len (JStr s) = Inr (length s)\<close>
| \<open>len _ = Inl TypeError\<close>

text \<open>
  \<open>key in value and test(value[key])\<close>: Python's \<open>and\<close> evaluates the subscript only when
  the membership test is true.
\<close>

definition has_item_that :: \<open>json \<Rightarrow> string \<Rightarrow> (json \<Rightarrow> exn + bool) \<Rightarrow> exn + bool\<close> where
  \<open>has_item_that v key test =
     (case contains v key of
        Inl e \<Rightarrow> Inl e
      | Inr False \<Rightarrow> Inr False
      | Inr True \<Rightarrow> (case getitem v key of Inl e \<Rightarrow> Inl e | Inr item \<Rightarrow> test item))\<close>

section \<open>Output parser\<close>

text \<open>
  \<open>json.loads\<close> belongs to Python's standard library, not to the module, and is a parameter
  \<open>loads\<close> of the model: \<open>loads s = None\<close> when \<open>json.loads(s)\<close> raises \<open>ValueError\<close>.

  \<open>scan_lines\<close> is the \<open>while\<close> loop of \<open>parse_conda_stdout\<close> with the statements after it.
  A line that does not decode is put back and ends the loop; a decoded line with neither
  \<open>"progress"\<close> nor \<open>"maxval"\<close> in it is returned; any other decoded line is dropped. After
  the loop the remaining lines are joined with no separator and decoded, and the result is
  \<open>None\<close> when that fails. A \<open>TypeError\<close> of the membership test is not caught.
\<close>

type_synonym decoder = \<open>string \<Rightarrow> json option\<close>

definition loads_or_None :: \<open>decoder \<Rightarrow> string \<Rightarrow> json\<close> where
  \<open>loads_or_None loads s = (case loads s of None \<Rightarrow> JNull | Some v \<Rightarrow> v)\<close>

fun scan_lines :: \<open>decoder \<Rightarrow> string list \<Rightarrow> exn + json\<close> where
  \<open>scan_lines loads [] = Inr (loads_or_None loads (concat []))\<close>
| \<open>scan_lines loads (line # split_lines) =
     (case loads line of
        None \<Rightarrow> Inr (loads_or_None loads (concat (line # split_lines)))
      | Some line_content \<Rightarrow>
          (case contains line_content ''progress'' of
             Inl e \<Rightarrow> Inl e
           | Inr True \<Rightarrow> scan_lines loads split_lines
           | Inr False \<Rightarrow>
               (case contains line_content ''maxval'' of
                  Inl e \<Rightarrow> Inl e
                | Inr True \<Rightarrow> scan_lines loads split_lines
                | Inr False \<Rightarrow> Inr line_content)))\<close>

definition parse_conda_stdout :: \<open>decoder \<Rightarrow> string \<Rightarrow> exn + json\<close> where
  \<open>parse_conda_stdout loads stdout = scan_lines loads (split_sep (CHR 0x0A) (strip stdout))\<close>

section \<open>Command runner\<close>

text \<open>
  The module object: its parameters, the check-mode flag, and \<open>run_command\<close>, which answers
  a command line with an exit code, the standard output and the standard error. The answer
  may depend on the commands run before, which are its first argument. The commands run so
  far are threaded through every function that runs one.
\<close>

record params =
  p_name :: string
  p_version :: \<open>string option\<close>
  p_state :: string
  p_channels :: \<open>string option\<close>
  p_executable :: \<open>string option\<close>
  p_extra_args :: \<open>string option\<close>

record ansible_module =
  params :: params
  check_mode :: bool
  run_command :: \<open>string list list \<Rightarrow> string list \<Rightarrow> int \<times> string \<times> string\<close>

type_synonym log = \<open>string list list\<close>

text \<open>
  \<open>command_result\<close> is \<open>_run_conda_command\<close> from the call of \<open>parse_conda_stdout\<close> on:
  the decision between raising \<open>CondaCommandError\<close> and returning the parsed output with
  the standard error.
\<close>

definition command_result ::
  \<open>decoder \<Rightarrow> string list \<Rightarrow> int \<Rightarrow> string \<Rightarrow> string \<Rightarrow> exn + json \<times> string\<close> where
  \<open>command_result loads command rc stdout stderr =
     (case parse_conda_stdout loads stdout of
        Inl e \<Rightarrow> Inl e
      | Inr parsed_stdout \<Rightarrow>
          if rc \<noteq> 0 \<or> parsed_stdout = JNull then
            (if parsed_stdout \<noteq> JNull then
               (case contains parsed_stdout ''message'' of
                  Inl e \<Rightarrow> Inl e
                | Inr True \<Rightarrow>
                    (case getitem parsed_stdout ''message'' of
                       Inl e \<Rightarrow> Inl e
                     | Inr error_message \<Rightarrow>
                         Inl (CondaCommandError command error_message parsed_stdout stdout stderr))
                | Inr False \<Rightarrow> Inl (CondaCommandError command JNull parsed_stdout stdout stderr))
             else Inl (CondaCommandError command JNull parsed_stdout stdout stderr))
          else Inr (parsed_stdout, stderr))\<close>

definition run_conda_command ::
  \<open>decoder \<Rightarrow> ansible_module \<Rightarrow> string list \<Rightarrow> log \<Rightarrow> (exn + json \<times> string) \<times> log\<close> where
  \<open>run_conda_command loads module command0 log =
     (let command = injected_command command0 (p_channels (params module))
                      (p_extra_args (params module));
          (rc, stdout, stderr) = run_command module log command
      in (command_result loads command rc stdout stderr, log @ [command]))\<close>

text \<open>
  The handler of \<open>_run_conda_package_command\<close> tests
  \<open>e.output is not None and 'exception_name' in e.output and
  e.output['exception_name'] == 'PackageNotFoundError'\<close>.
\<close>

definition is_package_not_found :: \<open>json \<Rightarrow> exn + bool\<close> where
  \<open>is_package_not_found output =
     (if output = JNull then Inr False
      else has_item_that output ''exception_name''
             (\<lambda>item. Inr (item = JStr ''PackageNotFoundError'')))\<close>

definition run_conda_package_command ::
  \<open>decoder \<Rightarrow> ansible_module \<Rightarrow> string \<Rightarrow> string option \<Rightarrow> string list \<Rightarrow> log
     \<Rightarrow> (exn + json \<times> string) \<times> log\<close> where
  \<open>run_conda_package_command loads module name version command log =
     (case run_conda_command loads module command log of
        (Inl (CondaCommandError c m output out err), log') \<Rightarrow>
          (case is_package_not_found output of
             Inl e \<Rightarrow> (Inl e, log')
           | Inr True \<Rightarrow> (Inl (CondaPackageNotFoundError name version), log')
           | Inr False \<Rightarrow> (Inl (CondaCommandError c m output out err), log'))
      | (r, log') \<Rightarrow> (r, log'))\<close>

section \<open>Package state reconciler\<close>

definition get_install_target :: \<open>string \<Rightarrow> string option \<Rightarrow> string\<close> where
  \<open>get_install_target name version =
     (case version of None \<Rightarrow> name | Some v \<Rightarrow> name @ ''='' @ v)\<close>

text \<open>
  \<open>installed_of_output\<close> is \<open>_check_package_installed\<close> after the dry run has returned
  \<open>output\<close> and \<open>stderr\<close>.
\<close>

definition already_installed_message :: string where
  \<open>already_installed_message = ''All requested packages already installed.''\<close>

definition installed_of_output :: \<open>json \<Rightarrow> string \<Rightarrow> exn + bool\<close> where
  \<open>installed_of_output output stderr =
     (case has_item_that output ''message'' (\<lambda>item. Inr (item = JStr already_installed_message)) of
        Inl e \<Rightarrow> Inl e
      | Inr True \<Rightarrow> Inr True
      | Inr False \<Rightarrow>
          (case has_item_that output ''actions''
                  (\<lambda>item. case len item of Inl e \<Rightarrow> Inl e | Inr n \<Rightarrow> Inr (n > 0)) of
             Inl e \<Rightarrow> Inl e
           | Inr True \<Rightarrow> Inr False
           | Inr False \<Rightarrow> Inl (CondaUnexpectedOutputError output stderr)))\<close>

definition dry_run_query :: \<open>string \<Rightarrow> string \<Rightarrow> string option \<Rightarrow> string list\<close> where
  \<open>dry_run_query conda name version =
     [conda, ''install'', ''--json'', ''--dry-run'', get_install_target name version]\<close>

definition check_package_installed ::
  \<open>decoder \<Rightarrow> ansible_module \<Rightarrow> string \<Rightarrow> string \<Rightarrow> string option \<Rightarrow> log
     \<Rightarrow> (exn + bool) \<times> log\<close> where
  \<open>check_package_installed loads module conda name version log =
     (case run_conda_package_command loads module name version
             (dry_run_query conda name version) log of
        (Inl e, log') \<Rightarrow> (Inl e, log')
      | (Inr (output, stderr), log') \<Rightarrow> (installed_of_output output stderr, log'))\<close>

text \<open>
  \<open>module.exit_json\<close> and \<open>module.fail_json\<close> end the process: they are the two ways in
  which the module finishes without an uncaught exception. \<open>Exit_json\<close> carries \<open>changed\<close>
  and the other keyword arguments.
\<close>

datatype exit = Exit_json bool \<open>(string \<times> json) list\<close> | Fail_json string

text \<open>\<open>command.insert(-1, '--dry-run')\<close> puts the flag before the last token.\<close>

definition with_dry_run :: \<open>bool \<Rightarrow> string list \<Rightarrow> string list\<close> where
  \<open>with_dry_run check command =
     (if check then butlast command @ [''--dry-run'', last command] else command)\<close>

definition install_command :: \<open>bool \<Rightarrow> string \<Rightarrow> string \<Rightarrow> string option \<Rightarrow> string list\<close> where
  \<open>install_command check conda name version =
     with_dry_run check [conda, ''install'', ''--yes'', ''--json'', get_install_target name version]\<close>

definition remove_command :: \<open>bool \<Rightarrow> string \<Rightarrow> string \<Rightarrow> string list\<close> where
  \<open>remove_command check conda name =
     with_dry_run check [conda, ''remove'', ''--yes'', ''--json'', name]\<close>

definition install_package ::
  \<open>decoder \<Rightarrow> ansible_module \<Rightarrow> string \<Rightarrow> string \<Rightarrow> string option \<Rightarrow> log
     \<Rightarrow> (exn + exit) \<times> log\<close> where
  \<open>install_package loads module conda name version log =
     (case run_conda_package_command loads module name version
             (install_command (check_mode module) conda name version) log of
        (Inl e, log') \<Rightarrow> (Inl e, log')
      | (Inr (output, stderr), log') \<Rightarrow>
          (Inr (Exit_json True
                  [(''name'', JStr name),
                   (''version'', case version of None \<Rightarrow> JNull | Some v \<Rightarrow> JStr v),
                   (''output'', output), (''error'', JStr stderr)]), log'))\<close>

definition uninstall_package ::
  \<open>decoder \<Rightarrow> ansible_module \<Rightarrow> string \<Rightarrow> string \<Rightarrow> log \<Rightarrow> (exn + exit) \<times> log\<close> where
  \<open>uninstall_package loads module conda name log =
     (case run_conda_package_command loads module name None
             (remove_command (check_mode module) conda name) log of
        (Inl e, log') \<Rightarrow> (Inl e, log')
      | (Inr (output, stderr), log') \<Rightarrow>
          (Inr (Exit_json True [(''output'', output), (''error'', JStr stderr)]), log'))\<close>

text \<open>
  \<open>_find_conda\<close>: \<open>find_executable\<close> is the answer of \<open>find_executable('conda')\<close> and
  \<open>isfile\<close> is \<open>os.path.isfile\<close>. The result \<open>None\<close> stands for the call of
  \<open>module.fail_json\<close> that ends the function when no executable is found.
\<close>

record filesystem =
  find_executable :: \<open>string option\<close>
  isfile :: \<open>string \<Rightarrow> bool\<close>

definition find_conda :: \<open>filesystem \<Rightarrow> string option \<Rightarrow> string option\<close> where
  \<open>find_conda fs executable =
     (if executable = None \<or> executable = Some [] then
        (case find_executable fs of
           None \<Rightarrow> None
         | Some conda \<Rightarrow> if conda \<noteq> [] then Some conda else None)
      else if isfile fs (the executable) then executable else None)\<close>

definition no_conda_message :: string where
  \<open>no_conda_message = ''could not find conda executable''\<close>

definition latest_with_version_message :: string where
  \<open>latest_with_version_message =
     ''`version` must not be set if `state == "latest"` (`latest` upgrades to newest version)''\<close>

text \<open>
  \<open>main\<close>, from the arguments that \<open>AnsibleModule\<close> has parsed. The result is how the
  process ends, an uncaught exception (\<open>Inl\<close>) or \<open>exit_json\<close> or \<open>fail_json\<close>, with the
  commands that were run, in order.
\<close>

definition main :: \<open>decoder \<Rightarrow> filesystem \<Rightarrow> ansible_module \<Rightarrow> (exn + exit) \<times> log\<close> where
  \<open>main loads fs module =
     (case find_conda fs (p_executable (params module)) of
        None \<Rightarrow> (Inr (Fail_json no_conda_message), [])
      | Some conda \<Rightarrow>
          (let name = p_name (params module);
               state = p_state (params module);
               version = p_version (params module)
           in if state = ''latest'' \<and> version \<noteq> None then
                (Inr (Fail_json latest_with_version_message), [])
              else
                (case check_package_installed loads module conda name version [] of
                   (Inl e, log) \<Rightarrow> (Inl e, log)
                 | (Inr correct_version_installed, log) \<Rightarrow>
                     if \<not> correct_version_installed \<and> state \<noteq> ''absent'' then
                       install_package loads module conda name version log
                     else if state = ''absent'' then
                       (case uninstall_package loads module conda name log of
                          (Inl (CondaPackageNotFoundError n v), log') \<Rightarrow>
                            (Inr (Exit_json False []), log')
                        | (r, log') \<Rightarrow> (r, log'))
                     else (Inr (Exit_json False []), log))))\<close>

section \<open>A decoder to run the model on concrete outputs\<close>

text \<open>
  \<open>json_loads\<close> decodes the JSON texts that are built from objects, arrays, strings without
  escape sequences, integers and \<open>true\<close>, \<open>false\<close> and \<open>null\<close>, with the white space of
  JSON (space, tab, line feed, carriage return) between the tokens; on these it returns
  what \<open>json.loads\<close> returns, a repeated key keeping its first place and its last value. It
  has no fractions, exponents or escape sequences, nor \<open>NaN\<close> and \<open>Infinity\<close>, and answers
  \<open>None\<close> on a text with one of them, so it stands for \<open>json.loads\<close> only on texts
  without them. The general theorems below speak about every decoder; \<open>json_loads\<close> serves
  to evaluate them on examples.
\<close>

datatype token = LBrace | RBrace | LBracket | RBracket | Comma | Colon
  | TStr string | TInt int | TLit json

definition json_space :: \<open>char \<Rightarrow> bool\<close> where
  \<open>json_space c \<longleftrightarrow> c \<in> set [CHR 0x20, CHR 0x09, CHR 0x0A, CHR 0x0D]\<close>

definition digit :: \<open>char \<Rightarrow> bool\<close> where
  \<open>digit c \<longleftrightarrow> c \<in> set ''0123456789''\<close>

text \<open>A character that may stand in a string as it is: no control character, no backslash.\<close>

definition plain :: \<open>char \<Rightarrow> bool\<close> where
  \<open>plain c \<longleftrightarrow> 32 \<le> (of_char c :: nat) \<and> c \<noteq> CHR 0x5C\<close>

definition decimal :: \<open>string \<Rightarrow> int\<close> where
  \<open>decimal ds = foldl (\<lambda>n c. 10 * n + (of_char c - 48)) 0 ds\<close>

text \<open>
  An integer token \<open>n\<close> followed by \<open>rest\<close>, whose tokens are \<open>later\<close>: a fraction or an
  exponent after the digits is outside the fragment.
\<close>

definition number_then :: \<open>int \<Rightarrow> string \<Rightarrow> token list option \<Rightarrow> token list option\<close> where
  \<open>number_then n rest later =
     (case rest of
        [] \<Rightarrow> map_option ((#) (TInt n)) later
      | c # _ \<Rightarrow> if c \<in> set ''.eE'' then None else map_option ((#) (TInt n)) later)\<close>

function tokens :: \<open>string \<Rightarrow> token list option\<close> where
  \<open>tokens [] = Some []\<close>
| \<open>tokens (c # cs) =
     (if json_space c then tokens cs
      else if c = CHR ''{'' then map_option ((#) LBrace) (tokens cs)
      else if c = CHR ''}'' then map_option ((#) RBrace) (tokens cs)
      else if c = CHR ''['' then map_option ((#) LBracket) (tokens cs)
      else if c = CHR '']'' then map_option ((#) RBracket) (tokens cs)
      else if c = CHR '','' then map_option ((#) Comma) (tokens cs)
      else if c = CHR '':'' then map_option ((#) Colon) (tokens cs)
      else if c = CHR 0x22 then
        (if list_all plain (takeWhile (\<lambda>x. x \<noteq> CHR 0x22) cs)
            \<and> dropWhile (\<lambda>x. x \<noteq> CHR 0x22) cs \<noteq> []
         then map_option ((#) (TStr (takeWhile (\<lambda>x. x \<noteq> CHR 0x22) cs)))
                (tokens (tl (dropWhile (\<lambda>x. x \<noteq> CHR 0x22) cs)))
         else None)
      else if c = CHR ''-'' then
        (case cs of
           [] \<Rightarrow> None
         | d # ds \<Rightarrow>
             if d = CHR ''0'' then number_then 0 ds (tokens ds)
             else if digit d then
               number_then (- decimal (d # takeWhile digit ds)) (dropWhile digit ds)
                 (tokens (dropWhile digit ds))
             else None)
      else if c = CHR ''0'' then number_then 0 cs (tokens cs)
      else if digit c then
        number_then (decimal (c # takeWhile digit cs)) (dropWhile digit cs)
          (tokens (dropWhile digit cs))
      else if take 4 (c # cs) = ''true'' then
        map_option ((#) (TLit (JBool True))) (tokens (drop 3 cs))
      else if take 5 (c # cs) = ''false'' then
        map_option ((#) (TLit (JBool False))) (tokens (drop 4 cs))
      else if take 4 (c # cs) = ''null'' then
        map_option ((#) (TLit JNull)) (tokens (drop 3 cs))
      else None)\<close>
  by pat_completeness auto
termination
  by (relation \<open>measure length\<close>)
    (auto simp: less_Suc_eq_le length_dropWhile_le
      intro: le_trans [OF diff_le_self length_dropWhile_le] le_SucI)

text \<open>
  Recursive descent over the tokens. Every call takes one unit of \<open>fuel\<close>; \<open>json_loads\<close>
  gives twice as many units as there are tokens, and one more.
\<close>

fun parse_value :: \<open>nat \<Rightarrow> token list \<Rightarrow> (json \<times> token list) option\<close>
  and parse_elements :: \<open>nat \<Rightarrow> json list \<Rightarrow> token list \<Rightarrow> (json \<times> token list) option\<close>
  and parse_members ::
    \<open>nat \<Rightarrow> (string \<times> json) list \<Rightarrow> token list \<Rightarrow> (json \<times> token list) option\<close>
where
  \<open>parse_value 0 ts = None\<close>
| \<open>parse_value (Suc fuel) [] = None\<close>
| \<open>parse_value (Suc fuel) (t # ts) =
     (case t of
        TStr s \<Rightarrow> Some (JStr s, ts)
      | TInt i \<Rightarrow> Some (JInt i, ts)
      | TLit v \<Rightarrow> Some (v, ts)
      | LBracket \<Rightarrow>
          (case ts of RBracket # ts' \<Rightarrow> Some (JArr [], ts') | _ \<Rightarrow> parse_elements fuel [] ts)
      | LBrace \<Rightarrow>
          (case ts of RBrace # ts' \<Rightarrow> Some (JObj [], ts') | _ \<Rightarrow> parse_members fuel [] ts)
      | _ \<Rightarrow> None)\<close>
| \<open>parse_elements 0 acc ts = None\<close>
| \<open>parse_elements (Suc fuel) acc ts =
     (case parse_value fuel ts of
        Some (v, Comma # ts') \<Rightarrow> parse_elements fuel (acc @ [v]) ts'
      | Some (v, RBracket # ts') \<Rightarrow> Some (JArr (acc @ [v]), ts')
      | _ \<Rightarrow> None)\<close>
| \<open>parse_members 0 acc ts = None\<close>
| \<open>parse_members (Suc fuel) acc ts =
     (case ts of
        TStr k # Colon # ts1 \<Rightarrow>
          (case parse_value fuel ts1 of
             Some (v, Comma # ts') \<Rightarrow> parse_members fuel (AList.update k v acc) ts'
           | Some (v, RBrace # ts') \<Rightarrow> Some (JObj (AList.update k v acc), ts')
           | _ \<Rightarrow> None)
      | _ \<Rightarrow> None)\<close>

definition json_loads :: decoder where
  \<open>json_loads s =
     (case tokens s of
        None \<Rightarrow> None
      | Some ts \<Rightarrow>
          (case parse_value (Suc (length ts + length ts)) ts of
             Some (v, []) \<Rightarrow> Some v
           | _ \<Rightarrow> None))\<close>

section \<open>Notions used in the properties\<close>

text \<open>The tokens that a channels value or an extra-arguments value contributes.\<close>

definition words_of :: \<open>string option \<Rightarrow> string list\<close> where
  \<open>words_of v = (case v of None \<Rightarrow> [] | Some s \<Rightarrow> split_whitespace (strip s))\<close>

text \<open>
  The lines of a standard output are the lines that \<open>parse_conda_stdout\<close> goes through: the
  output without the white space around it, split at the line feeds.
\<close>

definition stdout_lines :: \<open>string \<Rightarrow> string list\<close> where
  \<open>stdout_lines stdout = split_sep (CHR 0x0A) (strip stdout)\<close>

text \<open>\<open>sep.join(lines)\<close>.\<close>

fun join :: \<open>string \<Rightarrow> string list \<Rightarrow> string\<close> where
  \<open>join sep [] = []\<close>
| \<open>join sep [s] = s\<close>
| \<open>join sep (s # t # ts) = s @ sep @ join sep (t # ts)\<close>

text \<open>
  A progress report is a JSON object with a \<open>"progress"\<close> or a \<open>"maxval"\<close> key; a progress
  line is a line that decodes, on its own, as a progress report.
\<close>

definition progress_report :: \<open>json \<Rightarrow> bool\<close> where
  \<open>progress_report v \<longleftrightarrow>
     (case v of
        JObj items \<Rightarrow> ''progress'' \<in> set (map fst items) \<or> ''maxval'' \<in> set (map fst items)
      | _ \<Rightarrow> False)\<close>

definition progress_line :: \<open>decoder \<Rightarrow> string \<Rightarrow> bool\<close> where
  \<open>progress_line loads line \<longleftrightarrow>
     (case loads line of None \<Rightarrow> False | Some v \<Rightarrow> progress_report v)\<close>

text \<open>
  The lines \<open>result_lines\<close> hold one valid JSON object \<open>JObj items\<close>: on a single compact
  line, or spanning several lines.
\<close>

definition compact_result :: \<open>decoder \<Rightarrow> string list \<Rightarrow> (string \<times> json) list \<Rightarrow> bool\<close> where
  \<open>compact_result loads result_lines items \<longleftrightarrow>
     length result_lines = 1 \<and> loads (hd result_lines) = Some (JObj items)\<close>

definition multiline_result :: \<open>decoder \<Rightarrow> string list \<Rightarrow> (string \<times> json) list \<Rightarrow> bool\<close> where
  \<open>multiline_result loads result_lines items \<longleftrightarrow>
     2 \<le> length result_lines \<and> loads (join ''\<newline>'' result_lines) = Some (JObj items)\<close>

text \<open>A parsed result in the sense of the data model: a JSON object, or \<open>None\<close> for absent.\<close>

definition object_or_None :: \<open>json \<Rightarrow> bool\<close> where
  \<open>object_or_None v \<longleftrightarrow> (case v of JNull \<Rightarrow> True | JObj items \<Rightarrow> True | _ \<Rightarrow> False)\<close>

text \<open>The \<open>message\<close> field of a parsed result when there is one, \<open>None\<close> otherwise.\<close>

definition message_of :: \<open>json \<Rightarrow> json\<close> where
  \<open>message_of parsed =
     (case parsed of
        JObj items \<Rightarrow> (case map_of items ''message'' of None \<Rightarrow> JNull | Some m \<Rightarrow> m)
      | _ \<Rightarrow> JNull)\<close>

text \<open>A parsed result whose \<open>exception_name\<close> is the marker of a package that was not found.\<close>

definition names_package_not_found :: \<open>json \<Rightarrow> bool\<close> where
  \<open>names_package_not_found output \<longleftrightarrow>
     (case output of
        JObj items \<Rightarrow> map_of items ''exception_name'' = Some (JStr ''PackageNotFoundError'')
      | _ \<Rightarrow> False)\<close>

text \<open>The values that have a length, and the ones among them that are not empty.\<close>

definition sized :: \<open>json \<Rightarrow> bool\<close> where
  \<open>sized v \<longleftrightarrow>
     (case v of JObj items \<Rightarrow> True | JArr elements \<Rightarrow> True | JStr s \<Rightarrow> True | _ \<Rightarrow> False)\<close>

definition nonempty :: \<open>json \<Rightarrow> bool\<close> where
  \<open>nonempty v \<longleftrightarrow>
     (case v of
        JObj items \<Rightarrow> items \<noteq> []
      | JArr elements \<Rightarrow> elements \<noteq> []
      | JStr s \<Rightarrow> s \<noteq> []
      | _ \<Rightarrow> False)\<close>

text \<open>
  A module and a host for the examples: the package \<open>numpy\<close> in the given version, with no
  channels, no extra arguments and no explicit executable, not in check mode; \<open>answer\<close> is
  what the host answers to each command, and \<open>conda\<close> is found on the path or not.
\<close>

definition conda_module ::
  \<open>string option \<Rightarrow> string \<Rightarrow> (string list list \<Rightarrow> string list \<Rightarrow> int \<times> string \<times> string)
     \<Rightarrow> ansible_module\<close> where
  \<open>conda_module version state answer =
     \<lparr>params = \<lparr>p_name = ''numpy'', p_version = version, p_state = state, p_channels = None,
                 p_executable = None, p_extra_args = None\<rparr>,
      check_mode = False, run_command = answer\<rparr>\<close>

definition conda_on_path :: filesystem where
  \<open>conda_on_path = \<lparr>find_executable = Some ''/opt/conda/bin/conda'', isfile = (\<lambda>path. False)\<rparr>\<close>

definition no_conda :: filesystem where
  \<open>no_conda = \<lparr>find_executable = None, isfile = (\<lambda>path. False)\<rparr>\<close>

text \<open>
  The data of the unit tests in \<open>tests/unit/test_conda.py\<close>: \<open>_VALID_STDOUT\<close>, and the
  standard output of \<open>test_parses_valid_stdout_with_progress_reports\<close>, two progress
  reports, each followed by a line feed and a NUL character, and then \<open>_VALID_STDOUT\<close>.
\<close>

definition valid_stdout :: string where
  \<open>valid_stdout =
     ''\<newline>        {\<newline>          "actions": {}, \<newline>          "success": true\<newline>        }\<newline>    ''\<close>

definition progress_reports_stdout :: string where
  \<open>progress_reports_stdout =
     ''{"maxval": 17685, "finished": false, "fetch": "translationstr", "progress": 0}\<newline>''
     @ [CHR 0x00]
     @ ''{"maxval": 17685, "finished": true, "fetch": "translationstr", "progress": 17685}\<newline>''
     @ [CHR 0x00] @ valid_stdout\<close>

section \<open>Command builder: properties\<close>

lemma split_words_blank:
  \<open>\<forall>c \<in> set cs. isspace c \<Longrightarrow> split_words [] cs = []\<close>
  by (induction cs) simp_all

lemma strip_blank:
  \<open>\<forall>c \<in> set s. isspace c \<Longrightarrow> strip s = []\<close>
proof -
  assume \<open>\<forall>c \<in> set s. isspace c\<close>
  then have \<open>dropWhile isspace s = []\<close>
    by (simp add: dropWhile_eq_Nil_conv)
  then show ?thesis
    by (simp only: strip_def rev.simps dropWhile.simps)
qed

lemma split_whitespace_blank:
  \<open>\<forall>c \<in> set s. isspace c \<Longrightarrow> split_whitespace (strip s) = []\<close>
  by (simp add: strip_blank split_whitespace_def)

text \<open>
  Claim C9. A channels value or an extra-arguments value that is \<open>None\<close>, the empty string or
  white space only leaves the command as it is: the result equals the base command, so no
  token, and in particular no empty token, is inserted.
\<close>

theorem blank_injection_is_identity:
  \<open>blank v \<Longrightarrow>
     add_channels_to_command command v = command \<and> add_extras_to_command command v = command\<close>
  by (cases v)
    (simp_all add: blank_def add_channels_to_command_def add_extras_to_command_def
      split_whitespace_blank list_all_iff)

theorem blank_injection_is_identity_witness:
  \<open>blank (Some '' \<newline> '') \<and>
   add_channels_to_command [''conda'', ''install'', ''--json'', ''numpy''] (Some '' \<newline> '')
     = [''conda'', ''install'', ''--json'', ''numpy''] \<and>
   add_extras_to_command [''conda'', ''install'', ''--json'', ''numpy''] (Some '' \<newline> '')
     = [''conda'', ''install'', ''--json'', ''numpy'']\<close>
proof -
  have b: \<open>blank (Some '' \<newline> '')\<close>
    by (simp add: blank_def isspace_def)
  from blank_injection_is_identity [OF b, of \<open>[''conda'', ''install'', ''--json'', ''numpy'']\<close>] b
  show ?thesis by simp
qed

lemma split_whitespace_Nil: \<open>split_whitespace (strip []) = []\<close>
  by (simp add: split_whitespace_def strip_def)

lemma add_channels_words:
  \<open>add_channels_to_command command channels
     = take 2 command @ dashc (words_of channels) @ drop 2 command\<close>
  by (cases channels) (simp_all add: add_channels_to_command_def words_of_def split_whitespace_Nil)

lemma add_extras_words:
  \<open>add_extras_to_command command extras
     = take 2 command @ words_of extras @ drop 2 command\<close>
  by (cases extras) (simp_all add: add_extras_to_command_def words_of_def split_whitespace_Nil)

text \<open>
  Claim C2, as stated, fails. \<open>_run_conda_command\<close> injects the channels first and the extra
  arguments into the result: with the channel \<open>c1\<close> and the extra argument \<open>--foo\<close>, the
  command that is run has \<open>--foo\<close> at position 2 and the \<open>--channel\<close> pair after it.
\<close>

theorem extra_argument_at_position_2:
  \<open>snd (run_conda_command json_loads
          \<lparr>params = \<lparr>p_name = ''numpy'', p_version = None, p_state = ''present'',
                      p_channels = Some ''c1'', p_executable = None,
                      p_extra_args = Some ''--foo''\<rparr>,
           check_mode = False, run_command = (\<lambda>log command. (0, ''{}'', ''''))\<rparr>
          [''conda'', ''install'', ''--json'', ''numpy''] [])
     = [[''conda'', ''install'', ''--foo'', ''--channel'', ''c1'', ''--json'', ''numpy'']]\<close>
  by (simp add: run_conda_command_def injected_command_def add_channels_to_command_def
      add_extras_to_command_def split_whitespace_def strip_def isspace_def Let_def
      split: prod.splits)

text \<open>
  Claim C2, amended. When a command of at least two tokens is run, the channel flags are
  injected first and the extra arguments are injected into the result, so that the command
  line that is run is: executable and subcommand, then the extra arguments (from position 2
  on), then the \<open>--channel\<close> pairs, then the rest of the base command.
\<close>

theorem extras_precede_channels:
  \<open>2 \<le> length command \<Longrightarrow>
     snd (run_conda_command loads module command log)
       = log @ [take 2 command @ words_of (p_extra_args (params module))
                  @ dashc (words_of (p_channels (params module))) @ drop 2 command]\<close>
  by (simp add: run_conda_command_def injected_command_def add_channels_words add_extras_words
      Let_def split: prod.splits)

theorem extras_precede_channels_witness:
  \<open>2 \<le> length [''conda'', ''install'', ''--json'', ''numpy'']
   \<and> snd (run_conda_command json_loads
          \<lparr>params = \<lparr>p_name = ''numpy'', p_version = None, p_state = ''present'',
                      p_channels = Some ''c1 c2'', p_executable = None,
                      p_extra_args = Some ''--foo''\<rparr>,
           check_mode = False, run_command = (\<lambda>log command. (0, ''{}'', ''''))\<rparr>
          [''conda'', ''install'', ''--json'', ''numpy''] [])
     = [[''conda'', ''install'', ''--foo'', ''--channel'', ''c1'', ''--channel'', ''c2'',
         ''--json'', ''numpy'']]\<close>
  using extras_precede_channels [of \<open>[''conda'', ''install'', ''--json'', ''numpy'']\<close> json_loads
      \<open>\<lparr>params = \<lparr>p_name = ''numpy'', p_version = None, p_state = ''present'',
                      p_channels = Some ''c1 c2'', p_executable = None,
                      p_extra_args = Some ''--foo''\<rparr>,
           check_mode = False, run_command = (\<lambda>log command. (0, ''{}'', ''''))\<rparr>\<close> \<open>[]\<close>]
  by (simp add: words_of_def split_whitespace_def strip_def isspace_def)

section \<open>Output parser: properties\<close>

lemma scan_progress_line:
  \<open>progress_line loads line \<Longrightarrow> scan_lines loads (line # rest) = scan_lines loads rest\<close>
  by (auto simp: progress_line_def progress_report_def image_iff
      split: option.splits json.splits bool.splits)

lemma scan_progress_lines:
  \<open>list_all (progress_line loads) reports \<Longrightarrow>
     scan_lines loads (reports @ rest) = scan_lines loads rest\<close>
  by (induction reports) (simp_all add: scan_progress_line del: scan_lines.simps)

lemma scan_compact:
  \<open>loads line = Some (JObj items) \<Longrightarrow> \<not> progress_report (JObj items) \<Longrightarrow>
     scan_lines loads (line # rest) = Inr (JObj items)\<close>
  by (simp add: progress_report_def)

text \<open>
  Claim C10. A standard output that is empty, or whose every line decodes on its own as a
  JSON object with a \<open>"progress"\<close> or a \<open>"maxval"\<close> key, is parsed to \<open>None\<close>. The decoder
  rejects the empty string, as \<open>json.loads\<close> does.
\<close>

theorem all_progress_is_None:
  assumes \<open>loads [] = None\<close>
    and \<open>stdout = [] \<or> list_all (progress_line loads) (stdout_lines stdout)\<close>
  shows \<open>parse_conda_stdout loads stdout = Inr JNull\<close>
proof -
  from assms(2) show ?thesis
  proof
    assume \<open>stdout = []\<close>
    with assms(1) show ?thesis
      by (simp add: parse_conda_stdout_def strip_def loads_or_None_def)
  next
    assume \<open>list_all (progress_line loads) (stdout_lines stdout)\<close>
    then have \<open>scan_lines loads (stdout_lines stdout @ []) = scan_lines loads []\<close>
      by (rule scan_progress_lines)
    with assms(1) show ?thesis
      by (simp add: parse_conda_stdout_def stdout_lines_def loads_or_None_def)
  qed
qed

theorem all_progress_is_None_witness:
  \<open>json_loads [] = None
   \<and> list_all (progress_line json_loads)
        (stdout_lines ''{"progress": 0}\<newline>{"maxval": 5, "progress": 5}\<newline>'')
   \<and> parse_conda_stdout json_loads ''{"progress": 0}\<newline>{"maxval": 5, "progress": 5}\<newline>''
        = Inr JNull
   \<and> parse_conda_stdout json_loads [] = Inr JNull\<close>
proof -
  have e: \<open>json_loads [] = None\<close>
    by code_simp
  have p: \<open>list_all (progress_line json_loads)
        (stdout_lines ''{"progress": 0}\<newline>{"maxval": 5, "progress": 5}\<newline>'')\<close>
    by code_simp
  have n: \<open>([] :: string) = [] \<or> list_all (progress_line json_loads) (stdout_lines [])\<close>
    by simp
  from all_progress_is_None [OF e disjI2 [OF p]] all_progress_is_None [OF e n] e p
  show ?thesis by simp
qed

text \<open>
  Claim C1: progress reports followed by one valid JSON object are parsed to that object.
  The module breaks this on the output of its own unit test
  \<open>test_parses_valid_stdout_with_progress_reports\<close>, in which conda's two progress reports
  are each followed by a line feed and a NUL character, and \<open>_VALID_STDOUT\<close> comes last. The
  test expects the object that \<open>_VALID_STDOUT\<close> decodes to. The parser returns \<open>None\<close>: the
  second line starts with a NUL character that nothing removes, so it does not decode and
  ends the loop, and the remaining lines, joined, start with that character and do not
  decode either.
\<close>

theorem progress_reports_of_the_unit_test_parse_to_None:
  \<open>json_loads valid_stdout = Some (JObj [(''actions'', JObj []), (''success'', JBool True)])
   \<and> parse_conda_stdout json_loads progress_reports_stdout = Inr JNull\<close>
  by code_simp

text \<open>
  Where every line before the result decodes as it is, the parser does what claim C1 says.
  Let the lines of the standard output be \<open>N \<ge> 0\<close> progress lines followed by one valid JSON
  object that is either a single compact line with neither a \<open>"progress"\<close> nor a \<open>"maxval"\<close>
  key (with one of them the line is a progress report), or spans several lines, the first
  of which does not decode on its own, and decodes the same with its line breaks removed
  (in a JSON text a line break can only stand between two tokens). Then the parser returns
  exactly that object, for every \<open>N\<close>.
\<close>

theorem progress_then_result:
  assumes lines: \<open>stdout_lines stdout = reports @ result_lines\<close>
    and reports: \<open>list_all (progress_line loads) reports\<close>
    and result:
      \<open>compact_result loads result_lines items \<and> \<not> progress_report (JObj items)
       \<or> multiline_result loads result_lines items \<and> loads (hd result_lines) = None
           \<and> loads (concat result_lines) = loads (join ''\<newline>'' result_lines)\<close>
  shows \<open>parse_conda_stdout loads stdout = Inr (JObj items)\<close>
proof -
  have skip: \<open>parse_conda_stdout loads stdout = scan_lines loads result_lines\<close>
    using lines reports
    by (simp add: parse_conda_stdout_def stdout_lines_def [symmetric] scan_progress_lines
        del: scan_lines.simps)
  from result show ?thesis
  proof (elim disjE conjE)
    assume c: \<open>compact_result loads result_lines items\<close> and n: \<open>\<not> progress_report (JObj items)\<close>
    from c obtain line where \<open>result_lines = [line]\<close> \<open>loads line = Some (JObj items)\<close>
      by (cases result_lines) (auto simp: compact_result_def)
    with n skip show ?thesis
      by (simp add: scan_compact del: scan_lines.simps)
  next
    assume m: \<open>multiline_result loads result_lines items\<close>
      and h: \<open>loads (hd result_lines) = None\<close>
      and j: \<open>loads (concat result_lines) = loads (join ''\<newline>'' result_lines)\<close>
    from m obtain line rest where r: \<open>result_lines = line # rest\<close>
      by (cases result_lines) (auto simp: multiline_result_def)
    from m j have \<open>loads (concat result_lines) = Some (JObj items)\<close>
      by (simp add: multiline_result_def)
    with h r skip show ?thesis
      by (simp add: loads_or_None_def)
  qed
qed

theorem progress_then_result_witness:
  \<open>parse_conda_stdout json_loads
     ''{"maxval": 5, "progress": 0}\<newline>{"maxval": 5, "progress": 5}\<newline>{\<newline>  "actions": {},\<newline>  "success": true\<newline>}\<newline>''
     = Inr (JObj [(''actions'', JObj []), (''success'', JBool True)])
   \<and> parse_conda_stdout json_loads ''{"progress": 0}\<newline>{"success": true}''
     = Inr (JObj [(''success'', JBool True)])\<close>
proof -
  have l1: \<open>stdout_lines
      ''{"maxval": 5, "progress": 0}\<newline>{"maxval": 5, "progress": 5}\<newline>{\<newline>  "actions": {},\<newline>  "success": true\<newline>}\<newline>''
      = [''{"maxval": 5, "progress": 0}'', ''{"maxval": 5, "progress": 5}'']
        @ [''{'', ''  "actions": {},'', ''  "success": true'', ''}'']\<close>
    by code_simp
  have p1: \<open>list_all (progress_line json_loads)
      [''{"maxval": 5, "progress": 0}'', ''{"maxval": 5, "progress": 5}'']\<close>
    by code_simp
  have r1: \<open>compact_result json_loads [''{'', ''  "actions": {},'', ''  "success": true'', ''}'']
        [(''actions'', JObj []), (''success'', JBool True)]
      \<and> \<not> progress_report (JObj [(''actions'', JObj []), (''success'', JBool True)])
    \<or> multiline_result json_loads [''{'', ''  "actions": {},'', ''  "success": true'', ''}'']
        [(''actions'', JObj []), (''success'', JBool True)]
      \<and> json_loads (hd [''{'', ''  "actions": {},'', ''  "success": true'', ''}'']) = None
      \<and> json_loads (concat [''{'', ''  "actions": {},'', ''  "success": true'', ''}''])
          = json_loads (join ''\<newline>'' [''{'', ''  "actions": {},'', ''  "success": true'', ''}''])\<close>
    by code_simp
  have l2: \<open>stdout_lines ''{"progress": 0}\<newline>{"success": true}''
      = [''{"progress": 0}''] @ [''{"success": true}'']\<close>
    by code_simp
  have p2: \<open>list_all (progress_line json_loads) [''{"progress": 0}'']\<close>
    by code_simp
  have r2: \<open>compact_result json_loads [''{"success": true}''] [(''success'', JBool True)]
      \<and> \<not> progress_report (JObj [(''success'', JBool True)])
    \<or> multiline_result json_loads [''{"success": true}''] [(''success'', JBool True)]
      \<and> json_loads (hd [''{"success": true}'']) = None
      \<and> json_loads (concat [''{"success": true}''])
          = json_loads (join ''\<newline>'' [''{"success": true}''])\<close>
    by code_simp
  from progress_then_result [OF l1 p1 r1] progress_then_result [OF l2 p2 r2]
  show ?thesis by simp
qed

section \<open>Command runner: properties\<close>

lemma key_in_items: \<open>key \<in> fst ` set items \<longleftrightarrow> map_of items key \<noteq> None\<close>
  by (simp add: map_of_eq_None_iff)

lemma has_item_that_object:
  \<open>has_item_that (JObj items) key test =
     (case map_of items key of None \<Rightarrow> Inr False | Some item \<Rightarrow> test item)\<close>
  by (auto simp: has_item_that_def key_in_items split: option.splits)

lemma run_conda_command_eq:
  \<open>run_command module log
      (injected_command command (p_channels (params module)) (p_extra_args (params module)))
     = (rc, stdout, stderr) \<Longrightarrow>
   run_conda_command loads module command log
     = (command_result loads
          (injected_command command (p_channels (params module)) (p_extra_args (params module)))
          rc stdout stderr,
        log @ [injected_command command (p_channels (params module))
                 (p_extra_args (params module))])\<close>
  by (simp add: run_conda_command_def Let_def)

lemma command_result_object:
  \<open>parse_conda_stdout loads stdout = Inr (JObj items) \<Longrightarrow>
   command_result loads command rc stdout stderr
     = (if rc \<noteq> 0
        then Inl (CondaCommandError command (message_of (JObj items)) (JObj items) stdout stderr)
        else Inr (JObj items, stderr))\<close>
  by (auto simp: command_result_def key_in_items message_of_def split: option.splits)

lemma command_result_None:
  \<open>parse_conda_stdout loads stdout = Inr JNull \<Longrightarrow>
   command_result loads command rc stdout stderr
     = Inl (CondaCommandError command JNull JNull stdout stderr)\<close>
  by (simp add: command_result_def)

text \<open>
  Claim C4: the runner raises \<open>CondaCommandError\<close> exactly when the exit code is not zero
  or the parser has found no result, and returns the parsed result with the standard error
  otherwise. The module breaks this when the output decodes to a value that is not a JSON
  object: a command that exits with code 1 and prints \<open>1\<close> does not end in a
  \<open>CondaCommandError\<close>. The line decodes to the number 1, the test
  \<open>"progress" not in line_content\<close> raises \<open>TypeError\<close>, and \<open>except ValueError\<close> does
  not catch it, although \<open>parse_conda_stdout\<close> is documented to return the parsed JSON or
  \<open>None\<close>.
\<close>

theorem number_on_stdout_is_TypeError:
  \<open>fst (run_conda_command json_loads (conda_module None ''present'' (\<lambda>log command. (1, ''1'', '''')))
          [''conda'', ''install'', ''--json'', ''--dry-run'', ''numpy''] [])
     = Inl TypeError\<close>
  by code_simp

text \<open>
  Where the parser returns a JSON object or \<open>None\<close>, the runner does what claim C4 says.
  For every such command execution: the runner raises \<open>CondaCommandError\<close> if and only if the exit code is not
  zero or the parser returned \<open>None\<close>; the error carries the command that was run, the
  \<open>message\<close> field of the parsed result when there is one and \<open>None\<close> otherwise, the parsed
  result, the raw standard output and the raw standard error; in the other case the runner
  returns the parsed result paired with the standard error.
\<close>

theorem command_error_iff_failed_or_unparsed:
  assumes run: \<open>run_command module log
      (injected_command command (p_channels (params module)) (p_extra_args (params module)))
     = (rc, stdout, stderr)\<close>
    and parsed: \<open>parse_conda_stdout loads stdout = Inr parsed\<close>
    and shape: \<open>object_or_None parsed\<close>
  shows \<open>fst (run_conda_command loads module command log)
     = (if rc \<noteq> 0 \<or> parsed = JNull
        then Inl (CondaCommandError
                (injected_command command (p_channels (params module))
                   (p_extra_args (params module)))
                (message_of parsed) parsed stdout stderr)
        else Inr (parsed, stderr))\<close>
proof (cases parsed)
  case JNull
  with parsed show ?thesis
    by (simp add: run_conda_command_eq [OF run] command_result_None message_of_def)
next
  case (JObj items)
  with parsed show ?thesis
    by (simp add: run_conda_command_eq [OF run] command_result_object)
qed (use shape in \<open>simp_all add: object_or_None_def\<close>)

theorem command_error_iff_failed_or_unparsed_witness:
  \<open>fst (run_conda_command json_loads
          (conda_module None ''present'' (\<lambda>log command. (1, ''{"message": "no network"}'', ''warn'')))
          [''conda'', ''install'', ''--json'', ''--dry-run'', ''numpy''] [])
     = Inl (CondaCommandError [''conda'', ''install'', ''--json'', ''--dry-run'', ''numpy'']
              (JStr ''no network'') (JObj [(''message'', JStr ''no network'')])
              ''{"message": "no network"}'' ''warn'')
   \<and> fst (run_conda_command json_loads
          (conda_module None ''present'' (\<lambda>log command. (0, ''{"actions": [1]}'', ''warn'')))
          [''conda'', ''install'', ''--json'', ''--dry-run'', ''numpy''] [])
     = Inr (JObj [(''actions'', JArr [JInt 1])], ''warn'')
   \<and> fst (run_conda_command json_loads
          (conda_module None ''present'' (\<lambda>log command. (0, ''fail'', '''')))
          [''conda'', ''install'', ''--json'', ''--dry-run'', ''numpy''] [])
     = Inl (CondaCommandError [''conda'', ''install'', ''--json'', ''--dry-run'', ''numpy'']
              JNull JNull ''fail'' [])\<close>
proof -
  let ?query = \<open>[''conda'', ''install'', ''--json'', ''--dry-run'', ''numpy'']\<close>
  let ?m1 = \<open>conda_module None ''present'' (\<lambda>log command. (1, ''{"message": "no network"}'', ''warn''))\<close>
  let ?m2 = \<open>conda_module None ''present'' (\<lambda>log command. (0, ''{"actions": [1]}'', ''warn''))\<close>
  let ?m3 = \<open>conda_module None ''present'' (\<lambda>log command. (0, ''fail'', ''''))\<close>
  have r1: \<open>run_command ?m1 []
      (injected_command ?query (p_channels (params ?m1)) (p_extra_args (params ?m1)))
      = (1, ''{"message": "no network"}'', ''warn'')\<close>
    by (simp add: conda_module_def)
  have p1: \<open>parse_conda_stdout json_loads ''{"message": "no network"}''
      = Inr (JObj [(''message'', JStr ''no network'')])\<close>
    by code_simp
  have s1: \<open>object_or_None (JObj [(''message'', JStr ''no network'')])\<close>
    by (simp add: object_or_None_def)
  have r2: \<open>run_command ?m2 []
      (injected_command ?query (p_channels (params ?m2)) (p_extra_args (params ?m2)))
      = (0, ''{"actions": [1]}'', ''warn'')\<close>
    by (simp add: conda_module_def)
  have p2: \<open>parse_conda_stdout json_loads ''{"actions": [1]}''
      = Inr (JObj [(''actions'', JArr [JInt 1])])\<close>
    by code_simp
  have s2: \<open>object_or_None (JObj [(''actions'', JArr [JInt 1])])\<close>
    by (simp add: object_or_None_def)
  have r3: \<open>run_command ?m3 []
      (injected_command ?query (p_channels (params ?m3)) (p_extra_args (params ?m3)))
      = (0, ''fail'', '''')\<close>
    by (simp add: conda_module_def)
  have p3: \<open>parse_conda_stdout json_loads ''fail'' = Inr JNull\<close>
    by code_simp
  have s3: \<open>object_or_None JNull\<close>
    by (simp add: object_or_None_def)
  have c: \<open>injected_command ?query None None = ?query\<close>
    by (simp add: injected_command_def add_channels_to_command_def add_extras_to_command_def)
  from command_error_iff_failed_or_unparsed [OF r1 p1 s1]
    command_error_iff_failed_or_unparsed [OF r2 p2 s2]
    command_error_iff_failed_or_unparsed [OF r3 p3 s3]
  show ?thesis
    by (simp add: conda_module_def c message_of_def)
qed

lemma is_package_not_found_object_or_None:
  \<open>object_or_None output \<Longrightarrow> is_package_not_found output = Inr (names_package_not_found output)\<close>
  by (cases \<open>output\<close>)
    (auto simp: object_or_None_def is_package_not_found_def names_package_not_found_def
      has_item_that_object split: option.splits)

text \<open>
  Claim C3: a \<open>CondaCommandError\<close> whose parsed output names \<open>PackageNotFoundError\<close> is
  re-signalled as \<open>CondaPackageNotFoundError\<close> with the name and the version, and any other
  \<open>CondaCommandError\<close> propagates unchanged. The module breaks this when the parsed output
  is not a JSON object: a command that exits with code 1 and prints \<open>["exception_name"]\<close>
  fails with a \<open>CondaCommandError\<close> whose parsed output is that array, and this error is
  neither re-signalled nor propagated unchanged. The handler finds \<open>'exception_name'\<close> in
  the array, indexes the array with it, and a \<open>TypeError\<close> leaves the function.
\<close>

theorem array_output_is_TypeError:
  \<open>fst (run_conda_command json_loads
          (conda_module None ''present'' (\<lambda>log command. (1, ''["exception_name"]'', '''')))
          [''conda'', ''install'', ''--json'', ''--dry-run'', ''numpy''] [])
     = Inl (CondaCommandError [''conda'', ''install'', ''--json'', ''--dry-run'', ''numpy'']
              JNull (JArr [JStr ''exception_name'']) ''["exception_name"]'' '''')
   \<and> fst (run_conda_package_command json_loads
          (conda_module None ''present'' (\<lambda>log command. (1, ''["exception_name"]'', '''')))
          ''numpy'' None [''conda'', ''install'', ''--json'', ''--dry-run'', ''numpy''] [])
     = Inl TypeError\<close>
  by code_simp

text \<open>
  Where the parsed output is a JSON object or \<open>None\<close>, the handler does what claim C3 says.
  When a package-scoped command fails with a \<open>CondaCommandError\<close> whose parsed output is a
  JSON object or \<open>None\<close>: if the output is an object whose
  \<open>exception_name\<close> equals \<open>'PackageNotFoundError'\<close>, the failure is re-signalled as a
  \<open>CondaPackageNotFoundError\<close> constructed from the requested name and version; any other
  such error propagates unchanged.
\<close>

theorem package_not_found_resignalled:
  assumes \<open>run_conda_command loads module command log
             = (Inl (CondaCommandError c m output out err), log')\<close>
    and \<open>object_or_None output\<close>
  shows \<open>run_conda_package_command loads module name version command log
     = (if names_package_not_found output
        then (Inl (CondaPackageNotFoundError name version), log')
        else (Inl (CondaCommandError c m output out err), log'))\<close>
  using assms
  by (simp add: run_conda_package_command_def is_package_not_found_object_or_None)

theorem package_not_found_resignalled_witness:
  \<open>run_conda_package_command json_loads
      (conda_module (Some ''1.0'') ''present''
         (\<lambda>log command. (1, ''{"exception_name": "PackageNotFoundError"}'', '''')))
      ''numpy'' (Some ''1.0'') [''conda'', ''install'', ''--json'', ''--dry-run'', ''numpy=1.0''] []
     = (Inl (CondaPackageNotFoundError ''numpy'' (Some ''1.0'')),
        [[''conda'', ''install'', ''--json'', ''--dry-run'', ''numpy=1.0'']])
   \<and> run_conda_package_command json_loads
      (conda_module (Some ''1.0'') ''present'' (\<lambda>log command. (1, ''{"exception_name": "CondaError"}'', '''')))
      ''numpy'' (Some ''1.0'') [''conda'', ''install'', ''--json'', ''--dry-run'', ''numpy=1.0''] []
     = (Inl (CondaCommandError [''conda'', ''install'', ''--json'', ''--dry-run'', ''numpy=1.0'']
               JNull (JObj [(''exception_name'', JStr ''CondaError'')])
               ''{"exception_name": "CondaError"}'' ''''),
        [[''conda'', ''install'', ''--json'', ''--dry-run'', ''numpy=1.0'']])\<close>
proof -
  let ?query = \<open>[''conda'', ''install'', ''--json'', ''--dry-run'', ''numpy=1.0'']\<close>
  let ?m1 = \<open>conda_module (Some ''1.0'') ''present''
         (\<lambda>log command. (1, ''{"exception_name": "PackageNotFoundError"}'', ''''))\<close>
  let ?m2 = \<open>conda_module (Some ''1.0'') ''present''
         (\<lambda>log command. (1, ''{"exception_name": "CondaError"}'', ''''))\<close>
  have r1: \<open>run_conda_command json_loads ?m1 ?query []
      = (Inl (CondaCommandError ?query JNull
                (JObj [(''exception_name'', JStr ''PackageNotFoundError'')])
                ''{"exception_name": "PackageNotFoundError"}'' ''''), [?query])\<close>
    by code_simp
  have s1: \<open>object_or_None (JObj [(''exception_name'', JStr ''PackageNotFoundError'')])\<close>
    by (simp add: object_or_None_def)
  have r2: \<open>run_conda_command json_loads ?m2 ?query []
      = (Inl (CondaCommandError ?query JNull (JObj [(''exception_name'', JStr ''CondaError'')])
                ''{"exception_name": "CondaError"}'' ''''), [?query])\<close>
    by code_simp
  have s2: \<open>object_or_None (JObj [(''exception_name'', JStr ''CondaError'')])\<close>
    by (simp add: object_or_None_def)
  from package_not_found_resignalled [OF r1 s1, of \<open>''numpy''\<close> \<open>Some ''1.0''\<close>]
    package_not_found_resignalled [OF r2 s2, of \<open>''numpy''\<close> \<open>Some ''1.0''\<close>]
  show ?thesis
    by (simp add: names_package_not_found_def)
qed

section \<open>Package state reconciler: properties\<close>

lemma snd_run_conda_command:
  \<open>snd (run_conda_command loads module command log)
     = log @ [injected_command command (p_channels (params module))
                (p_extra_args (params module))]\<close>
  by (simp add: run_conda_command_def Let_def split: prod.splits)

lemma snd_run_conda_package_command:
  \<open>snd (run_conda_package_command loads module name version command log)
     = log @ [injected_command command (p_channels (params module))
                (p_extra_args (params module))]\<close>
proof -
  have \<open>snd (run_conda_package_command loads module name version command log)
          = snd (run_conda_command loads module command log)\<close>
    by (auto simp: run_conda_package_command_def split: prod.splits sum.splits exn.splits bool.splits)
  then show ?thesis
    by (simp add: snd_run_conda_command)
qed

lemma snd_check_package_installed:
  \<open>snd (check_package_installed loads module conda name version log)
     = log @ [injected_command (dry_run_query conda name version) (p_channels (params module))
                (p_extra_args (params module))]\<close>
proof -
  have \<open>snd (check_package_installed loads module conda name version log)
          = snd (run_conda_package_command loads module name version
                   (dry_run_query conda name version) log)\<close>
    by (auto simp: check_package_installed_def split: prod.splits sum.splits)
  then show ?thesis
    by (simp add: snd_run_conda_package_command)
qed

text \<open>
  Claim C5: a parsed result of the dry run is classified as already satisfied by its
  message, else as not satisfied by a non-empty \<open>actions\<close> entry, and in every other case
  \<open>CondaUnexpectedOutputError\<close> is raised. The module breaks this when the \<open>actions\<close>
  entry has no length: a dry run that prints \<open>{"actions": null}\<close> is neither classified
  nor answered with \<open>CondaUnexpectedOutputError\<close>, because \<open>len(output['actions'])\<close>
  raises \<open>TypeError\<close>, although \<open>_check_package_installed\<close> is documented to raise
  \<open>CondaUnexpectedOutputError\<close> when the JSON returned by Conda is unexpected.
\<close>

theorem null_actions_is_TypeError:
  \<open>fst (check_package_installed json_loads
          (conda_module None ''present'' (\<lambda>log command. (0, ''{"actions": null}'', '''')))
          ''conda'' ''numpy'' None [])
     = Inl TypeError\<close>
  by code_simp

text \<open>
  Where the parsed result is a JSON object whose \<open>actions\<close> entry, if there is one, has a
  length, the classification is what claim C5 says. For every parsed result of the dry run
  that is a JSON object: if its
  \<open>message\<close> is the exact string \<open>All requested packages already installed.\<close>, the package
  is classified as already satisfied; otherwise, if it has an \<open>actions\<close> entry that is a
  non-empty object, array or string, the package is classified as not satisfied; otherwise,
  if it has no \<open>actions\<close> entry or the entry is an empty object, array or string,
  \<open>CondaUnexpectedOutputError\<close> is raised with the output and the standard error.
\<close>

theorem dry_run_classification:
  assumes \<open>run_conda_package_command loads module name version
             (dry_run_query conda name version) log = (Inr (JObj items, stderr), log')\<close>
  shows \<open>(map_of items ''message'' = Some (JStr already_installed_message) \<longrightarrow>
            fst (check_package_installed loads module conda name version log) = Inr True)
       \<and> (map_of items ''message'' \<noteq> Some (JStr already_installed_message)
            \<and> (\<exists>a. map_of items ''actions'' = Some a \<and> sized a \<and> nonempty a) \<longrightarrow>
            fst (check_package_installed loads module conda name version log) = Inr False)
       \<and> (map_of items ''message'' \<noteq> Some (JStr already_installed_message)
            \<and> (map_of items ''actions'' = None
                \<or> (\<exists>a. map_of items ''actions'' = Some a \<and> sized a \<and> \<not> nonempty a)) \<longrightarrow>
            fst (check_package_installed loads module conda name version log)
              = Inl (CondaUnexpectedOutputError (JObj items) stderr))\<close>
proof -
  have c: \<open>fst (check_package_installed loads module conda name version log)
             = installed_of_output (JObj items) stderr\<close>
    using assms by (simp add: check_package_installed_def)
  show ?thesis
    unfolding c
    by (cases \<open>map_of items ''actions''\<close>; cases \<open>map_of items ''message''\<close>)
      (auto simp: installed_of_output_def has_item_that_object sized_def nonempty_def
        split: json.splits)
qed

theorem dry_run_classification_witness:
  \<open>fst (check_package_installed json_loads
          (conda_module None ''present''
             (\<lambda>log command. (0, ''{"message": "All requested packages already installed."}'', '''')))
          ''conda'' ''numpy'' None []) = Inr True
   \<and> fst (check_package_installed json_loads
          (conda_module None ''present'' (\<lambda>log command. (0, ''{"actions": [1]}'', '''')))
          ''conda'' ''numpy'' None []) = Inr False
   \<and> fst (check_package_installed json_loads
          (conda_module None ''present'' (\<lambda>log command. (0, ''{"actions": {}}'', ''warn'')))
          ''conda'' ''numpy'' None [])
       = Inl (CondaUnexpectedOutputError (JObj [(''actions'', JObj [])]) ''warn'')\<close>
proof -
  let ?query = \<open>[''conda'', ''install'', ''--json'', ''--dry-run'', ''numpy'']\<close>
  let ?m1 = \<open>conda_module None ''present''
     (\<lambda>log command. (0, ''{"message": "All requested packages already installed."}'', ''''))\<close>
  let ?m2 = \<open>conda_module None ''present'' (\<lambda>log command. (0, ''{"actions": [1]}'', ''''))\<close>
  let ?m3 = \<open>conda_module None ''present'' (\<lambda>log command. (0, ''{"actions": {}}'', ''warn''))\<close>
  have r1: \<open>run_conda_package_command json_loads ?m1 ''numpy'' None
      (dry_run_query ''conda'' ''numpy'' None) []
      = (Inr (JObj [(''message'', JStr ''All requested packages already installed.'')], ''''),
         [?query])\<close>
    by code_simp
  have r2: \<open>run_conda_package_command json_loads ?m2 ''numpy'' None
      (dry_run_query ''conda'' ''numpy'' None) []
      = (Inr (JObj [(''actions'', JArr [JInt 1])], ''''), [?query])\<close>
    by code_simp
  have r3: \<open>run_conda_package_command json_loads ?m3 ''numpy'' None
      (dry_run_query ''conda'' ''numpy'' None) []
      = (Inr (JObj [(''actions'', JObj [])], ''warn''), [?query])\<close>
    by code_simp
  from dry_run_classification [OF r1, THEN conjunct1]
    dry_run_classification [OF r2, THEN conjunct2, THEN conjunct1]
    dry_run_classification [OF r3, THEN conjunct2, THEN conjunct2]
  show ?thesis
    by (simp add: already_installed_message_def sized_def nonempty_def)
qed

text \<open>
  Claim C6. When \<open>main\<close> gets as far as the dry-run query (the executable is found and the
  request is not \<open>latest\<close> with a version), the query classifies the package as already
  satisfied and the state is not \<open>absent\<close>, then \<open>main\<close> ends with \<open>exit_json(changed=False)\<close>
  and the dry-run query is the only command that was run.
\<close>

theorem satisfied_changes_nothing:
  assumes \<open>find_conda fs (p_executable (params module)) = Some conda\<close>
    and \<open>\<not> (p_state (params module) = ''latest'' \<and> p_version (params module) \<noteq> None)\<close>
    and \<open>fst (check_package_installed loads module conda (p_name (params module))
                (p_version (params module)) []) = Inr True\<close>
    and \<open>p_state (params module) \<noteq> ''absent''\<close>
  shows \<open>main loads fs module
     = (Inr (Exit_json False []),
        [injected_command
           (dry_run_query conda (p_name (params module)) (p_version (params module)))
           (p_channels (params module)) (p_extra_args (params module))])\<close>
proof -
  obtain r log where c: \<open>check_package_installed loads module conda (p_name (params module))
                (p_version (params module)) [] = (r, log)\<close>
    by (cases \<open>check_package_installed loads module conda (p_name (params module))
                (p_version (params module)) []\<close>)
  with assms(3) have r: \<open>r = Inr True\<close>
    by simp
  from c snd_check_package_installed [of loads module conda \<open>p_name (params module)\<close>
      \<open>p_version (params module)\<close> \<open>[]\<close>]
  have log: \<open>log = [injected_command
           (dry_run_query conda (p_name (params module)) (p_version (params module)))
           (p_channels (params module)) (p_extra_args (params module))]\<close>
    by simp
  from assms(1,2,4) c r log show ?thesis
    by (auto simp: main_def Let_def)
qed

theorem satisfied_changes_nothing_witness:
  \<open>main json_loads conda_on_path
     (conda_module None ''present''
        (\<lambda>log command. (0, ''{"message": "All requested packages already installed."}'', '''')))
     = (Inr (Exit_json False []),
        [[''/opt/conda/bin/conda'', ''install'', ''--json'', ''--dry-run'', ''numpy'']])\<close>
proof -
  let ?m = \<open>conda_module None ''present''
        (\<lambda>log command. (0, ''{"message": "All requested packages already installed."}'', ''''))\<close>
  have f: \<open>find_conda conda_on_path (p_executable (params ?m)) = Some ''/opt/conda/bin/conda''\<close>
    by (simp add: find_conda_def conda_on_path_def conda_module_def)
  have v: \<open>\<not> (p_state (params ?m) = ''latest'' \<and> p_version (params ?m) \<noteq> None)\<close>
    by (simp add: conda_module_def)
  have q: \<open>fst (check_package_installed json_loads ?m ''/opt/conda/bin/conda''
                  (p_name (params ?m)) (p_version (params ?m)) []) = Inr True\<close>
    by code_simp
  have s: \<open>p_state (params ?m) \<noteq> ''absent''\<close>
    by (simp add: conda_module_def)
  from satisfied_changes_nothing [OF f v q s] show ?thesis
    by (simp add: conda_module_def dry_run_query_def get_install_target_def
        injected_command_def add_channels_to_command_def add_extras_to_command_def)
qed

text \<open>
  Claim C7. Let \<open>main\<close> get as far as the dry-run query. With the state \<open>absent\<close>, when the
  query has returned and the remove command ends in \<open>CondaPackageNotFoundError\<close>, \<open>main\<close>
  ends with \<open>exit_json(changed=False)\<close>: the failure is swallowed. On the two other
  paths it is not: a \<open>CondaPackageNotFoundError\<close> of the dry-run query, whatever the
  state, and one of the install command leave \<open>main\<close> as they are.
\<close>

theorem package_not_found_swallowed_on_remove_only:
  assumes conda: \<open>find_conda fs (p_executable (params module)) = Some conda\<close>
    and valid: \<open>\<not> (p_state (params module) = ''latest'' \<and> p_version (params module) \<noteq> None)\<close>
  shows \<open>(p_state (params module) = ''absent''
            \<and> check_package_installed loads module conda (p_name (params module))
                 (p_version (params module)) [] = (Inr installed, log1)
            \<and> uninstall_package loads module conda (p_name (params module)) log1
                 = (Inl (CondaPackageNotFoundError n v), log2)
          \<longrightarrow> main loads fs module = (Inr (Exit_json False []), log2))
       \<and> (check_package_installed loads module conda (p_name (params module))
                 (p_version (params module)) [] = (Inl (CondaPackageNotFoundError n v), log1)
          \<longrightarrow> main loads fs module = (Inl (CondaPackageNotFoundError n v), log1))
       \<and> (p_state (params module) \<noteq> ''absent''
            \<and> check_package_installed loads module conda (p_name (params module))
                 (p_version (params module)) [] = (Inr False, log1)
            \<and> install_package loads module conda (p_name (params module))
                 (p_version (params module)) log1 = (Inl (CondaPackageNotFoundError n v), log2)
          \<longrightarrow> main loads fs module = (Inl (CondaPackageNotFoundError n v), log2))\<close>
  using conda valid
  by (auto simp: main_def Let_def)

theorem package_not_found_swallowed_on_remove_only_witness:
  \<open>main json_loads conda_on_path
     (conda_module None ''absent''
        (\<lambda>log command.
           if ''remove'' \<in> set command
           then (1, ''{"exception_name": "PackageNotFoundError"}'', '''')
           else (0, ''{"actions": [1]}'', '''')))
     = (Inr (Exit_json False []),
        [[''/opt/conda/bin/conda'', ''install'', ''--json'', ''--dry-run'', ''numpy''],
         [''/opt/conda/bin/conda'', ''remove'', ''--yes'', ''--json'', ''numpy'']])
   \<and> main json_loads conda_on_path
     (conda_module None ''absent''
        (\<lambda>log command. (1, ''{"exception_name": "PackageNotFoundError"}'', '''')))
     = (Inl (CondaPackageNotFoundError ''numpy'' None),
        [[''/opt/conda/bin/conda'', ''install'', ''--json'', ''--dry-run'', ''numpy'']])
   \<and> main json_loads conda_on_path
     (conda_module None ''present''
        (\<lambda>log command.
           if ''--dry-run'' \<in> set command
           then (0, ''{"actions": [1]}'', '''')
           else (1, ''{"exception_name": "PackageNotFoundError"}'', '''')))
     = (Inl (CondaPackageNotFoundError ''numpy'' None),
        [[''/opt/conda/bin/conda'', ''install'', ''--json'', ''--dry-run'', ''numpy''],
         [''/opt/conda/bin/conda'', ''install'', ''--yes'', ''--json'', ''numpy'']])\<close>
proof -
  let ?conda = \<open>''/opt/conda/bin/conda''\<close>
  let ?query = \<open>[?conda, ''install'', ''--json'', ''--dry-run'', ''numpy'']\<close>
  let ?m1 = \<open>conda_module None ''absent''
        (\<lambda>log command.
           if ''remove'' \<in> set command
           then (1, ''{"exception_name": "PackageNotFoundError"}'', '''')
           else (0, ''{"actions": [1]}'', ''''))\<close>
  let ?m2 = \<open>conda_module None ''absent''
        (\<lambda>log command. (1, ''{"exception_name": "PackageNotFoundError"}'', ''''))\<close>
  let ?m3 = \<open>conda_module None ''present''
        (\<lambda>log command.
           if ''--dry-run'' \<in> set command
           then (0, ''{"actions": [1]}'', '''')
           else (1, ''{"exception_name": "PackageNotFoundError"}'', ''''))\<close>
  have f1: \<open>find_conda conda_on_path (p_executable (params ?m1)) = Some ?conda\<close>
    and f2: \<open>find_conda conda_on_path (p_executable (params ?m2)) = Some ?conda\<close>
    and f3: \<open>find_conda conda_on_path (p_executable (params ?m3)) = Some ?conda\<close>
    by (simp_all add: find_conda_def conda_on_path_def conda_module_def)
  have v1: \<open>\<not> (p_state (params ?m1) = ''latest'' \<and> p_version (params ?m1) \<noteq> None)\<close>
    and v2: \<open>\<not> (p_state (params ?m2) = ''latest'' \<and> p_version (params ?m2) \<noteq> None)\<close>
    and v3: \<open>\<not> (p_state (params ?m3) = ''latest'' \<and> p_version (params ?m3) \<noteq> None)\<close>
    by (simp_all add: conda_module_def)
  have a1: \<open>p_state (params ?m1) = ''absent''
      \<and> check_package_installed json_loads ?m1 ?conda (p_name (params ?m1))
           (p_version (params ?m1)) [] = (Inr False, [?query])
      \<and> uninstall_package json_loads ?m1 ?conda (p_name (params ?m1)) [?query]
           = (Inl (CondaPackageNotFoundError ''numpy'' None),
              [?query, [?conda, ''remove'', ''--yes'', ''--json'', ''numpy'']])\<close>
    by code_simp
  have a2: \<open>check_package_installed json_loads ?m2 ?conda (p_name (params ?m2))
           (p_version (params ?m2)) [] = (Inl (CondaPackageNotFoundError ''numpy'' None), [?query])\<close>
    by code_simp
  have a3: \<open>p_state (params ?m3) \<noteq> ''absent''
      \<and> check_package_installed json_loads ?m3 ?conda (p_name (params ?m3))
           (p_version (params ?m3)) [] = (Inr False, [?query])
      \<and> install_package json_loads ?m3 ?conda (p_name (params ?m3)) (p_version (params ?m3))
           [?query]
           = (Inl (CondaPackageNotFoundError ''numpy'' None),
              [?query, [?conda, ''install'', ''--yes'', ''--json'', ''numpy'']])\<close>
    by code_simp
  from package_not_found_swallowed_on_remove_only [OF f1 v1, THEN conjunct1, THEN mp, OF a1]
    package_not_found_swallowed_on_remove_only [OF f2 v2, THEN conjunct2, THEN conjunct1,
      THEN mp, OF a2]
    package_not_found_swallowed_on_remove_only [OF f3 v3, THEN conjunct2, THEN conjunct2,
      THEN mp, OF a3]
  show ?thesis
    by simp
qed

text \<open>
  Claim C8, as stated, fails. \<open>main\<close> looks for the executable before it looks at the state
  and the version: a request for \<open>latest\<close> with a version on a host without \<open>conda\<close> ends
  with the message that no executable was found, not with the message of the conflicting
  request.
\<close>

theorem latest_with_version_without_conda:
  \<open>main json_loads no_conda
      (conda_module (Some ''1.0'') ''latest'' (\<lambda>log command. (0, ''{}'', '''')))
     = (Inr (Fail_json ''could not find conda executable''), [])
   \<and> ''could not find conda executable'' \<noteq> latest_with_version_message\<close>
  by code_simp

text \<open>
  Claim C8, amended. Every invocation with the state \<open>latest\<close> and a version ends in
  \<open>fail_json\<close> before any command is built or run: with the message of the conflicting
  request when the \<open>conda\<close> executable has been found, and with the message that no
  executable was found otherwise.
\<close>

theorem latest_with_version_fails:
  assumes \<open>p_state (params module) = ''latest''\<close>
    and \<open>p_version (params module) \<noteq> None\<close>
  shows \<open>main loads fs module
     = (Inr (Fail_json
               (if find_conda fs (p_executable (params module)) = None then no_conda_message
                else latest_with_version_message)), [])\<close>
  using assms
  by (auto simp: main_def Let_def split: option.splits)

theorem latest_with_version_fails_witness:
  \<open>main json_loads conda_on_path
      (conda_module (Some ''1.0'') ''latest'' (\<lambda>log command. (0, ''{}'', '''')))
     = (Inr (Fail_json latest_with_version_message), [])\<close>
proof -
  let ?m = \<open>conda_module (Some ''1.0'') ''latest'' (\<lambda>log command. (0, ''{}'', ''''))\<close>
  have s: \<open>p_state (params ?m) = ''latest''\<close>
    and v: \<open>p_version (params ?m) \<noteq> None\<close>
    by (simp_all add: conda_module_def)
  have f: \<open>find_conda conda_on_path (p_executable (params ?m)) \<noteq> None\<close>
    by (simp add: find_conda_def conda_on_path_def conda_module_def)
  from latest_with_version_fails [OF s v, of json_loads conda_on_path] f
  show ?thesis
    by simp
qed

section \<open>The unit tests of the repository\<close>

text \<open>
  \<open>test_parses_invalid_stdout\<close> and \<open>test_parses_valid_stdout\<close> hold of the model: \<open>fail\<close>
  is parsed to \<open>None\<close>, and \<open>_VALID_STDOUT\<close> to the object that it decodes to.
\<close>

lemma test_parses_invalid_stdout:
  \<open>parse_conda_stdout json_loads ''fail'' = Inr JNull\<close>
  by code_simp

lemma test_parses_valid_stdout:
  \<open>json_loads valid_stdout = Some (JObj [(''actions'', JObj []), (''success'', JBool True)])
   \<and> parse_conda_stdout json_loads valid_stdout
       = Inr (JObj [(''actions'', JObj []), (''success'', JBool True)])\<close>
  by code_simp

text \<open>
  The third test, \<open>test_parses_valid_stdout_with_progress_reports\<close>, fails on the module, as
  shown with the output parser. The NUL characters are the cause: the second line of its
  output is not a progress line as it stands, and the same output without the two NUL
  characters is parsed to the object that the test expects.
\<close>

lemma second_line_of_the_unit_test_does_not_decode:
  \<open>length (stdout_lines progress_reports_stdout) = 7
   \<and> progress_line json_loads (stdout_lines progress_reports_stdout ! 0)
   \<and> hd (stdout_lines progress_reports_stdout ! 1) = CHR 0x00
   \<and> json_loads (stdout_lines progress_reports_stdout ! 1) = None\<close>
  by code_simp

lemma progress_reports_without_NUL:
  \<open>parse_conda_stdout json_loads (filter (\<lambda>c. c \<noteq> CHR 0x00) progress_reports_stdout)
     = Inr (JObj [(''actions'', JObj []), (''success'', JBool True)])\<close>
  by code_simp

end
